theory Spec2Isabelle
  imports Main "HOL-Library.Char_ord" "HOL-Library.List_Lexorder" "HOL-Library.Word"
begin

section \<open>Data model of the chat sample (src/apps/chat-app/index.ts)\<close>

text \<open>
  A JavaScript string is a sequence of UTF-16 code units. Free text (a message's content,
  a room's name, the text of a notification) is modelled as such: a list of 16-bit words,
  so that \<open>substring(0, 50)\<close> is \<open>take 50\<close>. Identifiers, e-mail addresses, passwords
  and timestamps are ASCII in the sample and are modelled as \<^typ>\<open>string\<close>, one
  character for one code unit, ordered lexicographically by unit value: the order of the
  default \<open>Array.prototype.sort\<close> and of the ISO-8601 timestamps of \<open>toISOString\<close>.
\<close>

type_synonym code_unit = "16 word"
type_synonym js_text = "code_unit list"
type_synonym user_id = string
type_synonym timestamp = string
type_synonym record_id = string

datatype room_type = Direct | Group

datatype message_type = Text | Image | File

datatype notify_type = Email | Push | Sms

record ChatRoom =
  room_id :: record_id
  room_name :: js_text
  room_type :: room_type
  room_members :: "user_id list"
  room_createdAt :: timestamp
  room_lastMessageAt :: timestamp

record Message =
  msg_id :: record_id
  msg_roomId :: record_id
  msg_userId :: user_id
  msg_content :: js_text
  msg_type :: message_type
  msg_readBy :: "user_id list"
  msg_createdAt :: timestamp

record User =
  user_id :: user_id
  user_email :: string
  user_displayName :: "string option"
  user_lastSeenAt :: "string option"

text \<open>The argument of \<open>NotifyClient.send\<close> as \<open>notifyMembers\<close> builds it.\<close>

record Metadata =
  md_roomId :: record_id
  md_messageId :: record_id
  md_senderId :: user_id

record Notification =
  n_userId :: user_id
  n_type :: notify_type
  n_message :: js_text
  n_metadata :: Metadata

text \<open>
  The errors a \<open>ChatApp\<close> method rejects with: \<open>Error('Not authenticated')\<close>,
  \<open>Error('Room not found')\<close>, and the error \<open>NanobaseClient.fetch\<close> throws when the
  service answers without \<open>success\<close>.
\<close>

datatype error = NotAuthenticated | RoomNotFound | ApiError

text \<open>The instance state of \<open>ChatApp\<close> (\<open>this.user\<close>) and of its client (the token).\<close>

record ChatApp =
  user :: "User option"
  token :: "string option"

section \<open>The backend services\<close>

text \<open>
  Modelled from the spec: the record store, the notifier, the authentication service and
  the telemetry service are remote services whose code is not part of the repository; the
  client (src/unnamed/part_001) only sends them HTTP requests. The store keeps each
  collection in insertion order, assigns a fresh id on creation (\<open>fresh_id\<close>), returns
  the created record as it was sent, and answers \<open>find\<close> by filtering with \<open>where\<close>,
  ordering with \<open>orderBy\<close> (descending, stable: ties stay in insertion order) and
  cutting at \<open>limit\<close>; a query without limit returns every match. The store answers
  every request; the authentication service accepts a login with the credentials of an
  account and every logout; the telemetry service accepts every event. What the spec
  leaves open is a parameter of the backend: whether the notifier accepts a request
  (\<open>notify_ok\<close>) and whether the store rejects an update or delete of an unknown id
  (\<open>strict_ids\<close>). The journal lists the mutating requests sent to the store and the
  outbox the requests sent to the notifier, oldest first, the rejected ones included.
\<close>

datatype store_write = Post string | Patch string record_id | Delete string record_id

record backend =
  chat_rooms :: "ChatRoom list"
  messages :: "Message list"
  next_id :: nat
  journal :: "store_write list"
  outbox :: "Notification list"
  notify_ok :: "Notification \<Rightarrow> bool"
  strict_ids :: bool
  accounts :: "(string \<times> string \<times> string \<times> User) list"
  events :: "(string \<times> user_id \<times> timestamp) list"

definition fresh_id :: "nat \<Rightarrow> record_id" where
  "fresh_id n = CHR ''r'' # replicate n CHR ''i''"

fun insert_desc :: "('a \<Rightarrow> timestamp) \<Rightarrow> 'a \<Rightarrow> 'a list \<Rightarrow> 'a list" where
  "insert_desc k x [] = [x]"
| "insert_desc k x (y # ys) = (if k y \<le> k x then x # y # ys else y # insert_desc k x ys)"

definition sort_desc :: "('a \<Rightarrow> timestamp) \<Rightarrow> 'a list \<Rightarrow> 'a list" where
  "sort_desc k xs = foldr (insert_desc k) xs []"

definition store_find ::
  "('a \<Rightarrow> bool) \<Rightarrow> ('a \<Rightarrow> timestamp) option \<Rightarrow> nat option \<Rightarrow> 'a list \<Rightarrow> 'a list" where
  "store_find wh orderBy limit xs =
     (let matching = filter wh xs;
          ordered = (case orderBy of None \<Rightarrow> matching | Some k \<Rightarrow> sort_desc k matching)
      in case limit of None \<Rightarrow> ordered | Some n \<Rightarrow> take n ordered)"

definition store_create_room ::
  "js_text \<Rightarrow> room_type \<Rightarrow> user_id list \<Rightarrow> timestamp \<Rightarrow> timestamp \<Rightarrow> backend
     \<Rightarrow> ChatRoom \<times> backend" where
  "store_create_room nm ty ms created lastAt b =
     (let r = \<lparr>room_id = fresh_id (next_id b), room_name = nm, room_type = ty,
               room_members = ms, room_createdAt = created, room_lastMessageAt = lastAt\<rparr>
      in (r, b\<lparr>chat_rooms := chat_rooms b @ [r], next_id := Suc (next_id b),
                journal := journal b @ [Post ''chat_rooms'']\<rparr>))"

definition store_create_message ::
  "record_id \<Rightarrow> user_id \<Rightarrow> js_text \<Rightarrow> message_type \<Rightarrow> user_id list \<Rightarrow> timestamp \<Rightarrow> backend
     \<Rightarrow> Message \<times> backend" where
  "store_create_message rid uid content ty rb created b =
     (let m = \<lparr>msg_id = fresh_id (next_id b), msg_roomId = rid, msg_userId = uid,
               msg_content = content, msg_type = ty, msg_readBy = rb,
               msg_createdAt = created\<rparr>
      in (m, b\<lparr>messages := messages b @ [m], next_id := Suc (next_id b),
                journal := journal b @ [Post ''messages'']\<rparr>))"

definition store_update_room ::
  "record_id \<Rightarrow> (ChatRoom \<Rightarrow> ChatRoom) \<Rightarrow> backend \<Rightarrow> (error + unit) \<times> backend" where
  "store_update_room rid patch b =
     (let b' = b\<lparr>journal := journal b @ [Patch ''chat_rooms'' rid]\<rparr>
      in if rid \<in> set (map room_id (chat_rooms b))
         then (Inr (), b'\<lparr>chat_rooms :=
                 map (\<lambda>r. if room_id r = rid then patch r else r) (chat_rooms b)\<rparr>)
         else if strict_ids b then (Inl ApiError, b') else (Inr (), b'))"

definition store_update_message ::
  "record_id \<Rightarrow> (Message \<Rightarrow> Message) \<Rightarrow> backend \<Rightarrow> (error + unit) \<times> backend" where
  "store_update_message mid patch b =
     (let b' = b\<lparr>journal := journal b @ [Patch ''messages'' mid]\<rparr>
      in if mid \<in> set (map msg_id (messages b))
         then (Inr (), b'\<lparr>messages :=
                 map (\<lambda>m. if msg_id m = mid then patch m else m) (messages b)\<rparr>)
         else if strict_ids b then (Inl ApiError, b') else (Inr (), b'))"

definition store_delete_room :: "record_id \<Rightarrow> backend \<Rightarrow> (error + unit) \<times> backend" where
  "store_delete_room rid b =
     (let b' = b\<lparr>journal := journal b @ [Delete ''chat_rooms'' rid]\<rparr>
      in if rid \<in> set (map room_id (chat_rooms b))
         then (Inr (), b'\<lparr>chat_rooms := filter (\<lambda>r. room_id r \<noteq> rid) (chat_rooms b)\<rparr>)
         else if strict_ids b then (Inl ApiError, b') else (Inr (), b'))"

definition notify_send :: "Notification \<Rightarrow> backend \<Rightarrow> (error + unit) \<times> backend" where
  "notify_send n b =
     (let b' = b\<lparr>outbox := outbox b @ [n]\<rparr>
      in if notify_ok b n then (Inr (), b') else (Inl ApiError, b'))"

fun auth_login ::
  "string \<Rightarrow> string \<Rightarrow> (string \<times> string \<times> string \<times> User) list \<Rightarrow> (string \<times> User) option" where
  "auth_login email password [] = None"
| "auth_login email password ((e, p, tok, u) # rest) =
     (if e = email \<and> p = password then Some (tok, u) else auth_login email password rest)"

definition monitor_track :: "string \<Rightarrow> user_id \<Rightarrow> timestamp \<Rightarrow> backend \<Rightarrow> backend" where
  "monitor_track event uid ts b = b\<lparr>events := events b @ [(event, uid, ts)]\<rparr>"

section \<open>The data client (src/unnamed/part_001, class DataClient)\<close>

text \<open>
  \<open>find\<close> puts \<open>limit\<close> into the query only when \<open>query.limit\<close> is truthy, so a limit of
  \<open>0\<close> reaches the store as no limit. \<open>findOne\<close> is \<open>find\<close> with limit 1 and returns
  the first result or null.
\<close>

definition data_find ::
  "('a \<Rightarrow> bool) \<Rightarrow> ('a \<Rightarrow> timestamp) option \<Rightarrow> nat option \<Rightarrow> 'a list \<Rightarrow> 'a list" where
  "data_find wh orderBy limit xs =
     store_find wh orderBy
       (case limit of None \<Rightarrow> None | Some n \<Rightarrow> if n = 0 then None else Some n) xs"

definition data_findOne :: "('a \<Rightarrow> bool) \<Rightarrow> 'a list \<Rightarrow> 'a option" where
  "data_findOne wh xs = (case data_find wh None (Some 1) xs of [] \<Rightarrow> None | x # _ \<Rightarrow> Some x)"

section \<open>The chat application (class ChatApp)\<close>

text \<open>
  Every method takes the instance state, its arguments, the values \<open>new Date()\<close> reads
  during the call, and the backend; it returns the resolved value or the error it rejects
  with, and the backend after the requests it has sent.
\<close>

definition updatePresence :: "ChatApp \<Rightarrow> timestamp \<Rightarrow> backend \<Rightarrow> backend" where
  "updatePresence app now b =
     (case user app of None \<Rightarrow> b
      | Some u \<Rightarrow> monitor_track ''user_online'' (user_id u) now b)"

definition login ::
  "ChatApp \<Rightarrow> string \<Rightarrow> string \<Rightarrow> timestamp \<Rightarrow> backend \<Rightarrow> (error + User) \<times> ChatApp \<times> backend" where
  "login app email password now b =
     (case auth_login email password (accounts b) of
        None \<Rightarrow> (Inl ApiError, app, b)
      | Some (tok, u) \<Rightarrow>
          (let app' = app\<lparr>user := Some u, token := Some tok\<rparr>
           in (Inr u, app', updatePresence app' now b)))"

definition logout :: "ChatApp \<Rightarrow> backend \<Rightarrow> (error + unit) \<times> ChatApp \<times> backend" where
  "logout app b = (Inr (), app\<lparr>user := None, token := None\<rparr>, b)"

definition createDirectRoom ::
  "ChatApp \<Rightarrow> user_id \<Rightarrow> timestamp \<Rightarrow> timestamp \<Rightarrow> backend \<Rightarrow> (error + ChatRoom) \<times> backend" where
  "createDirectRoom app otherUserId now1 now2 b =
     (case user app of None \<Rightarrow> (Inl NotAuthenticated, b)
      | Some u \<Rightarrow>
          (case data_find (\<lambda>r. room_type r = Direct
                               \<and> room_members r = sort [user_id u, otherUserId])
                  None None (chat_rooms b) of
             r # _ \<Rightarrow> (Inr r, b)
           | [] \<Rightarrow>
               (case store_create_room [] Direct (sort [user_id u, otherUserId]) now1 now2 b of
                  (r, b') \<Rightarrow> (Inr r, b'))))"

text \<open>\<open>[...new Set(xs)]\<close> keeps the first occurrence of each element, in order.\<close>

definition dedup :: "'a list \<Rightarrow> 'a list" where
  "dedup xs = rev (remdups (rev xs))"

definition createGroupRoom ::
  "ChatApp \<Rightarrow> js_text \<Rightarrow> user_id list \<Rightarrow> timestamp \<Rightarrow> timestamp \<Rightarrow> backend
     \<Rightarrow> (error + ChatRoom) \<times> backend" where
  "createGroupRoom app nm memberIds now1 now2 b =
     (case user app of None \<Rightarrow> (Inl NotAuthenticated, b)
      | Some u \<Rightarrow>
          (case store_create_room nm Group (dedup (user_id u # memberIds)) now1 now2 b of
             (r, b') \<Rightarrow> (Inr r, b')))"

definition getRooms :: "ChatApp \<Rightarrow> backend \<Rightarrow> (error + ChatRoom list) \<times> backend" where
  "getRooms app b =
     (case user app of None \<Rightarrow> (Inl NotAuthenticated, b)
      | Some u \<Rightarrow>
          (Inr (data_find (\<lambda>r. user_id u \<in> set (room_members r))
                  (Some room_lastMessageAt) None (chat_rooms b)), b))"

definition leaveRoom :: "ChatApp \<Rightarrow> record_id \<Rightarrow> backend \<Rightarrow> (error + unit) \<times> backend" where
  "leaveRoom app roomId b =
     (case user app of None \<Rightarrow> (Inl NotAuthenticated, b)
      | Some u \<Rightarrow>
          (case data_findOne (\<lambda>r. room_id r = roomId) (chat_rooms b) of
             None \<Rightarrow> (Inl RoomNotFound, b)
           | Some room \<Rightarrow>
               (let updatedMembers = filter (\<lambda>i. i \<noteq> user_id u) (room_members room)
                in if length updatedMembers = 0
                   then store_delete_room roomId b
                   else store_update_room roomId
                          (\<lambda>r. r\<lparr>room_members := updatedMembers\<rparr>) b)))"

text \<open>
  The text of a notification: a fixed Japanese label of ten code units (eight kana and
  kanji, a colon and a space), then \<open>message.content.substring(0, 50)\<close>, the first 50
  code units of the content.
\<close>

definition notify_label :: js_text where
  "notify_label =
     [0x65B0, 0x3057, 0x3044, 0x30E1, 0x30C3, 0x30BB, 0x30FC, 0x30B8, 0x003A, 0x0020]"

definition notification :: "user_id \<Rightarrow> record_id \<Rightarrow> Message \<Rightarrow> user_id \<Rightarrow> Notification" where
  "notification sender roomId message memberId =
     \<lparr>n_userId = memberId, n_type = Push,
      n_message = notify_label @ take 50 (msg_content message),
      n_metadata = \<lparr>md_roomId = roomId, md_messageId = msg_id message,
                    md_senderId = sender\<rparr>\<rparr>"

text \<open>The \<open>for\<close> loop of \<open>notifyMembers\<close>: a rejected \<open>send\<close> leaves the loop.\<close>

fun notify_each ::
  "user_id \<Rightarrow> record_id \<Rightarrow> Message \<Rightarrow> user_id list \<Rightarrow> backend \<Rightarrow> (error + unit) \<times> backend" where
  "notify_each sender roomId message [] b = (Inr (), b)"
| "notify_each sender roomId message (memberId # rest) b =
     (case notify_send (notification sender roomId message memberId) b of
        (Inl e, b') \<Rightarrow> (Inl e, b')
      | (Inr _, b') \<Rightarrow> notify_each sender roomId message rest b')"

text \<open>\<open>notifyMembers\<close> is private and only called by \<open>sendMessage\<close>, after its check of
  \<open>this.user\<close>; it reads \<open>this.user!.id\<close>, here the argument \<open>u\<close>.\<close>

definition notifyMembers ::
  "User \<Rightarrow> record_id \<Rightarrow> Message \<Rightarrow> backend \<Rightarrow> (error + unit) \<times> backend" where
  "notifyMembers u roomId message b =
     (case data_findOne (\<lambda>r. room_id r = roomId) (chat_rooms b) of
        None \<Rightarrow> (Inr (), b)
      | Some room \<Rightarrow>
          notify_each (user_id u) roomId message
            (filter (\<lambda>i. i \<noteq> user_id u) (room_members room)) b)"

definition sendMessage ::
  "ChatApp \<Rightarrow> record_id \<Rightarrow> js_text \<Rightarrow> message_type \<Rightarrow> timestamp \<Rightarrow> backend
     \<Rightarrow> (error + Message) \<times> backend" where
  "sendMessage app roomId content ty now b =
     (case user app of None \<Rightarrow> (Inl NotAuthenticated, b)
      | Some u \<Rightarrow>
          (case store_create_message roomId (user_id u) content ty [user_id u] now b of
             (message, b1) \<Rightarrow>
               (case store_update_room roomId
                       (\<lambda>r. r\<lparr>room_lastMessageAt := msg_createdAt message\<rparr>) b1 of
                  (Inl e, b2) \<Rightarrow> (Inl e, b2)
                | (Inr _, b2) \<Rightarrow>
                    (case notifyMembers u roomId message b2 of
                       (Inl e, b3) \<Rightarrow> (Inl e, b3)
                     | (Inr _, b3) \<Rightarrow> (Inr message, b3)))))"

definition getMessages ::
  "ChatApp \<Rightarrow> record_id \<Rightarrow> nat \<Rightarrow> backend \<Rightarrow> (error + Message list) \<times> backend" where
  "getMessages app roomId limit b =
     (case user app of None \<Rightarrow> (Inl NotAuthenticated, b)
      | Some u \<Rightarrow>
          (Inr (rev (data_find (\<lambda>m. msg_roomId m = roomId)
                       (Some msg_createdAt) (Some limit) (messages b))), b))"

text \<open>The \<open>for\<close> loop of \<open>markAsRead\<close>.\<close>

fun markAsRead_each :: "User \<Rightarrow> record_id list \<Rightarrow> backend \<Rightarrow> (error + unit) \<times> backend" where
  "markAsRead_each u [] b = (Inr (), b)"
| "markAsRead_each u (messageId # rest) b =
     (case data_findOne (\<lambda>m. msg_id m = messageId) (messages b) of
        None \<Rightarrow> markAsRead_each u rest b
      | Some message \<Rightarrow>
          (if user_id u \<in> set (msg_readBy message) then markAsRead_each u rest b
           else (case store_update_message messageId
                        (\<lambda>m. m\<lparr>msg_readBy := msg_readBy message @ [user_id u]\<rparr>) b of
                   (Inl e, b') \<Rightarrow> (Inl e, b')
                 | (Inr _, b') \<Rightarrow> markAsRead_each u rest b')))"

definition markAsRead :: "ChatApp \<Rightarrow> record_id list \<Rightarrow> backend \<Rightarrow> (error + unit) \<times> backend" where
  "markAsRead app messageIds b =
     (case user app of None \<Rightarrow> (Inl NotAuthenticated, b)
      | Some u \<Rightarrow> markAsRead_each u messageIds b)"

text \<open>\<open>if (roomId)\<close>: a missing and an empty room id both leave the room filter out.\<close>

definition getUnreadCount :: "ChatApp \<Rightarrow> record_id option \<Rightarrow> backend \<Rightarrow> (error + nat) \<times> backend" where
  "getUnreadCount app roomId b =
     (case user app of None \<Rightarrow> (Inl NotAuthenticated, b)
      | Some u \<Rightarrow>
          (Inr (length (data_find
                  (\<lambda>m. user_id u \<notin> set (msg_readBy m)
                       \<and> (case roomId of None \<Rightarrow> True
                          | Some rid \<Rightarrow> rid = [] \<or> msg_roomId m = rid))
                  None None (messages b))), b))"

definition getOnlineUsers :: "ChatApp \<Rightarrow> record_id \<Rightarrow> backend \<Rightarrow> (error + user_id list) \<times> backend" where
  "getOnlineUsers app roomId b =
     (case data_findOne (\<lambda>r. room_id r = roomId) (chat_rooms b) of
        None \<Rightarrow> (Inr [], b)
      | Some room \<Rightarrow> (Inr (room_members room), b))"

section \<open>Auxiliary notions and example states\<close>

text \<open>The direct rooms of the store whose members are the sorted pair of two users.\<close>

definition direct_rooms :: "user_id \<Rightarrow> user_id \<Rightarrow> backend \<Rightarrow> ChatRoom list" where
  "direct_rooms a c b =
     filter (\<lambda>r. room_type r = Direct \<and> room_members r = sort [a, c]) (chat_rooms b)"

text \<open>The code units of an ASCII literal.\<close>

definition utf16 :: "string \<Rightarrow> js_text" where
  "utf16 s = map of_char s"

definition mk_user :: "user_id \<Rightarrow> User" where
  "mk_user uid = \<lparr>user_id = uid, user_email = uid @ ''@example.com'',
                  user_displayName = None, user_lastSeenAt = None\<rparr>"

definition app_of :: "user_id \<Rightarrow> ChatApp" where
  "app_of uid = \<lparr>user = Some (mk_user uid), token = Some (''token-'' @ uid)\<rparr>"

definition app_anon :: ChatApp where
  "app_anon = \<lparr>user = None, token = None\<rparr>"

definition empty_backend :: backend where
  "empty_backend = \<lparr>chat_rooms = [], messages = [], next_id = 0, journal = [], outbox = [],
     notify_ok = (\<lambda>n. True), strict_ids = False, accounts = [], events = []\<rparr>"

text \<open>
  The record \<open>sendMessage\<close> asks the store to create, with the id the store assigns; the
  notifier requests of the fan-out for a room, in the order of the loop; and the requests
  the loop really sends when the notifier answers by \<open>ok\<close>: it stops after the first
  rejected one.
\<close>

fun fanout_issued :: "(Notification \<Rightarrow> bool) \<Rightarrow> Notification list \<Rightarrow> Notification list" where
  "fanout_issued ok [] = []"
| "fanout_issued ok (n # ns) = (if ok n then n # fanout_issued ok ns else [n])"

definition new_message ::
  "User \<Rightarrow> record_id \<Rightarrow> js_text \<Rightarrow> message_type \<Rightarrow> timestamp \<Rightarrow> backend \<Rightarrow> Message" where
  "new_message u rid content ty now b =
     \<lparr>msg_id = fresh_id (next_id b), msg_roomId = rid, msg_userId = user_id u,
      msg_content = content, msg_type = ty, msg_readBy = [user_id u], msg_createdAt = now\<rparr>"

definition fanout_calls :: "User \<Rightarrow> record_id \<Rightarrow> Message \<Rightarrow> ChatRoom \<Rightarrow> Notification list" where
  "fanout_calls u rid message room =
     map (notification (user_id u) rid message)
       (filter (\<lambda>i. i \<noteq> user_id u) (room_members room))"

text \<open>
  A sequence of \<open>leaveRoom\<close> calls, each by its own client instance, and the users who
  leave a given room in it (the calls of logged-in clients for that room).
\<close>

fun leave_all :: "(ChatApp \<times> record_id) list \<Rightarrow> backend \<Rightarrow> backend" where
  "leave_all [] b = b"
| "leave_all ((app, rid) # calls) b = leave_all calls (snd (leaveRoom app rid b))"

fun leavers :: "record_id \<Rightarrow> (ChatApp \<times> record_id) list \<Rightarrow> user_id list" where
  "leavers rid [] = []"
| "leavers rid ((app, rid') # calls) =
     (case user app of
        None \<Rightarrow> leavers rid calls
      | Some u \<Rightarrow> if rid' = rid then user_id u # leavers rid calls else leavers rid calls)"

text \<open>
  A sequence of \<open>markAsRead\<close> calls, and the relation between a message before and
  after: the same message, with a read-by list that contains the earlier one.
\<close>

fun markRead_all :: "(ChatApp \<times> record_id list) list \<Rightarrow> backend \<Rightarrow> backend" where
  "markRead_all [] b = b"
| "markRead_all ((app, ids) # calls) b = markRead_all calls (snd (markAsRead app ids b))"

definition receipts_grow :: "Message \<Rightarrow> Message \<Rightarrow> bool" where
  "receipts_grow m m' \<longleftrightarrow>
     msg_id m' = msg_id m \<and> msg_roomId m' = msg_roomId m \<and> msg_userId m' = msg_userId m \<and>
     msg_content m' = msg_content m \<and> msg_type m' = msg_type m \<and>
     msg_createdAt m' = msg_createdAt m \<and> set (msg_readBy m) \<subseteq> set (msg_readBy m')"

text \<open>
  The full history of a room as \<open>getMessages\<close> sees it: its messages fetched in
  descending order of \<open>createdAt\<close>, then reversed.
\<close>

definition room_history :: "record_id \<Rightarrow> backend \<Rightarrow> Message list" where
  "room_history rid b =
     rev (sort_desc msg_createdAt (filter (\<lambda>m. msg_roomId m = rid) (messages b)))"

text \<open>A group room of three users, and a notifier that rejects the requests for \<open>u2\<close>.\<close>

definition room_r1 :: ChatRoom where
  "room_r1 = \<lparr>room_id = ''r1'', room_name = utf16 ''team'', room_type = Group,
     room_members = [''u1'', ''u2'', ''u3''], room_createdAt = ''2025-01-01T00:00:00.000Z'',
     room_lastMessageAt = ''2025-01-02T00:00:00.000Z''\<rparr>"

definition group_backend :: backend where
  "group_backend = empty_backend\<lparr>chat_rooms := [room_r1]\<rparr>"

definition flaky_backend :: backend where
  "flaky_backend = group_backend\<lparr>notify_ok := (\<lambda>n. n_userId n \<noteq> ''u2'')\<rparr>"

text \<open>The group room with one message by \<open>u1\<close>.\<close>

definition msg_m1 :: Message where
  "msg_m1 = \<lparr>msg_id = ''m1'', msg_roomId = ''r1'', msg_userId = ''u1'', msg_content = utf16 ''hi'',
     msg_type = Text, msg_readBy = [''u1''], msg_createdAt = ''2025-01-02T00:00:00.000Z''\<rparr>"

definition chat_backend :: backend where
  "chat_backend = group_backend\<lparr>messages := [msg_m1]\<rparr>"

text \<open>
  The store after \<open>u1\<close> has called \<open>createDirectRoom\<close> with its own id: one direct
  room, of id \<open>r\<close>, whose members are \<open>u1\<close> twice.
\<close>

definition self_room_backend :: backend where
  "self_room_backend =
     snd (createDirectRoom (app_of ''u1'') ''u1'' ''2025-01-01T00:00:00.000Z''
            ''2025-01-01T00:00:00.000Z'' empty_backend)"

text \<open>The same backend with one account of the authentication service.\<close>

definition auth_backend :: backend where
  "auth_backend = group_backend\<lparr>accounts :=
     [(''u1@example.com'', ''secret'', ''token-u1'', mk_user ''u1'')]\<rparr>"

lemmas example_defs = app_of_def mk_user_def app_anon_def empty_backend_def room_r1_def
  group_backend_def flaky_backend_def msg_m1_def chat_backend_def auth_backend_def
  self_room_backend_def

lemmas sendMessage_eval = sendMessage_def store_create_message_def store_update_room_def
  notifyMembers_def data_findOne_def data_find_def store_find_def notify_send_def
  notification_def Let_def fresh_id_def new_message_def fanout_calls_def

lemmas leaveRoom_eval = leaveRoom_def store_delete_room_def store_update_room_def
  data_findOne_def data_find_def store_find_def Let_def

lemmas markAsRead_eval = markAsRead_def store_update_message_def
  data_findOne_def data_find_def store_find_def Let_def receipts_grow_def

section \<open>Facts about the data client\<close>

lemma data_find_all: "data_find wh None None xs = filter wh xs"
  by (simp add: data_find_def store_find_def)

lemma data_findOne_filter:
  "data_findOne wh xs = (case filter wh xs of [] \<Rightarrow> None | x # _ \<Rightarrow> Some x)"
  by (simp add: data_findOne_def data_find_def store_find_def split: list.splits)

lemma data_findOne_None: "data_findOne wh xs = None \<longleftrightarrow> (\<forall>x \<in> set xs. \<not> wh x)"
  by (cases "filter wh xs")
    (auto simp: data_findOne_filter filter_empty_conv dest: filter_eq_ConsD)

lemma data_findOne_Some: "data_findOne wh xs = Some x \<Longrightarrow> x \<in> set xs \<and> wh x"
  by (auto simp: data_findOne_filter split: list.splits dest: filter_eq_ConsD)

lemma filter_id_distinct:
  "distinct (map f xs) \<Longrightarrow> x \<in> set xs \<Longrightarrow> filter (\<lambda>y. f y = f x) xs = [x]"
  by (induction xs) (auto simp: filter_empty_conv image_iff)

lemma data_findOne_by_id:
  "distinct (map f xs) \<Longrightarrow> x \<in> set xs \<Longrightarrow> data_findOne (\<lambda>y. f y = f x) xs = Some x"
  by (simp add: data_findOne_filter filter_id_distinct)

lemma sort_pair_commute: "sort [a, b] = sort [b, a]" for a :: "'a::linorder"
  by (auto simp: insort_key.simps)

section \<open>What \<open>sendMessage\<close> does\<close>

lemma notify_each_run:
  "notify_each s rid m ms b =
     (if list_all (notify_ok b) (map (notification s rid m) ms) then Inr () else Inl ApiError,
      b\<lparr>outbox := outbox b @ fanout_issued (notify_ok b) (map (notification s rid m) ms)\<rparr>)"
  by (induction ms arbitrary: b) (simp_all add: notify_send_def Let_def)

lemma fanout_issued_takeWhile:
  "fanout_issued ok ns = takeWhile ok ns @ take 1 (dropWhile ok ns)"
  by (induction ns) simp_all

lemma fanout_issued_all: "list_all ok ns \<Longrightarrow> fanout_issued ok ns = ns"
  by (induction ns) simp_all

lemma data_findOne_map_patch:
  assumes "\<And>r. room_id (patch r) = room_id r"
  shows "data_findOne (\<lambda>r. room_id r = rid)
           (map (\<lambda>r. if room_id r = rid then patch r else r) rs)
         = map_option patch (data_findOne (\<lambda>r. room_id r = rid) rs)"
  by (induction rs) (simp_all add: data_findOne_filter assms)

lemma sendMessage_found:
  assumes "user app = Some u"
    and "data_findOne (\<lambda>r. room_id r = rid) (chat_rooms b) = Some room"
  shows "sendMessage app rid content ty now b =
     (if list_all (notify_ok b) (fanout_calls u rid (new_message u rid content ty now b) room)
      then Inr (new_message u rid content ty now b) else Inl ApiError,
      b\<lparr>messages := messages b @ [new_message u rid content ty now b],
        next_id := Suc (next_id b),
        journal := journal b @ [Post ''messages'', Patch ''chat_rooms'' rid],
        chat_rooms := map (\<lambda>r. if room_id r = rid then r\<lparr>room_lastMessageAt := now\<rparr> else r)
                        (chat_rooms b),
        outbox := outbox b @ fanout_issued (notify_ok b)
                    (fanout_calls u rid (new_message u rid content ty now b) room)\<rparr>)"
proof -
  from assms(2) have mem: "rid \<in> room_id ` set (chat_rooms b)"
    by (auto dest: data_findOne_Some)
  have look: "data_findOne (\<lambda>r. room_id r = rid)
      (map (\<lambda>r. if room_id r = rid then r\<lparr>room_lastMessageAt := now\<rparr> else r) (chat_rooms b))
      = Some (room\<lparr>room_lastMessageAt := now\<rparr>)"
    using data_findOne_map_patch [of "\<lambda>r. r\<lparr>room_lastMessageAt := now\<rparr>" rid "chat_rooms b"] assms(2)
    by simp
  show ?thesis
    using assms(1) mem look
    by (simp add: sendMessage_def store_create_message_def store_update_room_def Let_def
        notifyMembers_def notify_each_run new_message_def fanout_calls_def cong: if_cong)
qed

lemma sendMessage_missing:
  assumes "user app = Some u"
    and "data_findOne (\<lambda>r. room_id r = rid) (chat_rooms b) = None"
  shows "sendMessage app rid content ty now b =
     (if strict_ids b then Inl ApiError else Inr (new_message u rid content ty now b),
      b\<lparr>messages := messages b @ [new_message u rid content ty now b],
        next_id := Suc (next_id b),
        journal := journal b @ [Post ''messages'', Patch ''chat_rooms'' rid]\<rparr>)"
proof -
  from assms(2) have mem: "rid \<notin> room_id ` set (chat_rooms b)"
    by (auto simp: data_findOne_None)
  show ?thesis
    using assms mem
    by (simp add: sendMessage_def store_create_message_def store_update_room_def Let_def
        notifyMembers_def new_message_def)
qed


section \<open>Direct rooms\<close>

text \<open>
  C1. Direct-room creation is idempotent. When user A calls \<open>createDirectRoom(B)\<close> and
  then user B calls \<open>createDirectRoom(A)\<close> against the same store, the second call
  returns the room the first call returned and leaves the store as the first call left
  it; that room is a direct room of the store whose members are the sorted pair, and the
  direct rooms of the pair are that one room when there was none before, and the same
  rooms as before otherwise.
\<close>

theorem createDirectRoom_idempotent:
  assumes "user appA = Some ua" and "user appB = Some ub"
  shows "case createDirectRoom appA (user_id ub) t1 t2 b of (res1, b1) \<Rightarrow>
           (case createDirectRoom appB (user_id ua) t3 t4 b1 of (res2, b2) \<Rightarrow>
              res2 = res1 \<and> b2 = b1 \<and>
              (\<exists>r. res1 = Inr r \<and> r \<in> set (chat_rooms b1) \<and> room_type r = Direct \<and>
                   room_members r = sort [user_id ua, user_id ub] \<and>
                   direct_rooms (user_id ua) (user_id ub) b1 =
                     (if direct_rooms (user_id ua) (user_id ub) b = [] then [r]
                      else direct_rooms (user_id ua) (user_id ub) b)))"
proof (cases "direct_rooms (user_id ua) (user_id ub) b")
  case Nil
  then show ?thesis using assms
    by (simp add: createDirectRoom_def data_find_all direct_rooms_def store_create_room_def
        Let_def sort_pair_commute [of "user_id ub" "user_id ua"] del: sort_key_simps)
next
  case (Cons r rs)
  then have "r \<in> set (chat_rooms b) \<and> room_type r = Direct
      \<and> room_members r = sort [user_id ua, user_id ub]"
    unfolding direct_rooms_def by (auto dest: filter_eq_ConsD)
  with Cons show ?thesis using assms
    by (simp add: createDirectRoom_def data_find_all direct_rooms_def
        sort_pair_commute [of "user_id ub" "user_id ua"] del: sort_key_simps)
qed

theorem createDirectRoom_idempotent_witness:
  "user (app_of ''u1'') = Some (mk_user ''u1'') \<and> user (app_of ''u2'') = Some (mk_user ''u2'') \<and>
   (case createDirectRoom (app_of ''u1'') ''u2'' ''t1'' ''t2'' empty_backend of (res1, b1) \<Rightarrow>
      (case createDirectRoom (app_of ''u2'') ''u1'' ''t3'' ''t4'' b1 of (res2, b2) \<Rightarrow>
         res2 = res1 \<and> b2 = b1 \<and> map room_members (chat_rooms b2) = [[''u1'', ''u2'']]))"
  using createDirectRoom_idempotent [where appA = "app_of ''u1''" and ua = "mk_user ''u1''"
      and appB = "app_of ''u2''" and ub = "mk_user ''u2''" and b = empty_backend
      and ?t1.0 = "''t1''" and ?t2.0 = "''t2''" and ?t3.0 = "''t3''" and ?t4.0 = "''t4''"]
  by (simp add: app_of_def mk_user_def empty_backend_def createDirectRoom_def data_find_all
      store_create_room_def Let_def fresh_id_def)

section \<open>Sending a message\<close>

text \<open>
  The fan-out loop has no error handling. In a group of \<open>u1\<close>, \<open>u2\<close>, \<open>u3\<close> where the
  notifier rejects the request for \<open>u2\<close>, a message sent by \<open>u1\<close> makes \<open>sendMessage\<close>
  fail, and the only request the notifier has received is the one for \<open>u2\<close>: none was
  sent for \<open>u3\<close>.
\<close>

theorem fanout_best_effort_counterexample:
  "fst (sendMessage (app_of ''u1'') ''r1'' (utf16 ''hello'') Text ''2025-01-03T00:00:00.000Z''
          flaky_backend) = Inl ApiError \<and>
   map n_userId (outbox (snd (sendMessage (app_of ''u1'') ''r1'' (utf16 ''hello'') Text
          ''2025-01-03T00:00:00.000Z'' flaky_backend))) = [''u2'']"
  by (simp add: example_defs sendMessage_eval)

text \<open>
  C2, as the code has it. The fan-out is sequential and stops at the first failure: for a
  call by a logged-in user on an existing room, the message is stored, the notifier
  receives the requests of the fan-out up to and including the first rejected one and none
  after it, and \<open>sendMessage\<close> returns the created message when every request was
  accepted and fails with the notifier's error otherwise.
\<close>

theorem sendMessage_fanout_fail_fast:
  assumes "user app = Some u"
    and "data_findOne (\<lambda>r. room_id r = rid) (chat_rooms b) = Some room"
  shows "case sendMessage app rid content ty now b of (res, b') \<Rightarrow>
           messages b' = messages b @ [new_message u rid content ty now b] \<and>
           outbox b' = outbox b @ fanout_issued (notify_ok b)
                         (fanout_calls u rid (new_message u rid content ty now b) room) \<and>
           res = (if list_all (notify_ok b)
                       (fanout_calls u rid (new_message u rid content ty now b) room)
                  then Inr (new_message u rid content ty now b) else Inl ApiError)"
  by (simp add: sendMessage_found [OF assms])

theorem sendMessage_fanout_fail_fast_witness:
  "user (app_of ''u1'') = Some (mk_user ''u1'') \<and>
   data_findOne (\<lambda>r. room_id r = ''r1'') (chat_rooms flaky_backend) = Some room_r1 \<and>
   (case sendMessage (app_of ''u1'') ''r1'' (utf16 ''hello'') Text ''2025-01-03T00:00:00.000Z''
           flaky_backend of (res, b') \<Rightarrow>
      res = Inl ApiError \<and> map msg_content (messages b') = [utf16 ''hello''] \<and>
      map n_userId (outbox b') = [''u2''])"
  using sendMessage_fanout_fail_fast [where app = "app_of ''u1''" and u = "mk_user ''u1''"
      and rid = "''r1''" and b = flaky_backend and room = room_r1 and content = "utf16 ''hello''"
      and ty = Text and now = "''2025-01-03T00:00:00.000Z''"]
  by (simp add: example_defs sendMessage_eval)


text \<open>
  \<open>sendMessage\<close> with empty content on an existing room succeeds, and the store holds a
  message whose content is empty.
\<close>

theorem sendMessage_empty_content_counterexample:
  "fst (sendMessage (app_of ''u1'') ''r1'' [] Text ''2025-01-03T00:00:00.000Z'' group_backend)
     = Inr \<lparr>msg_id = ''r'', msg_roomId = ''r1'', msg_userId = ''u1'', msg_content = [],
            msg_type = Text, msg_readBy = [''u1''],
            msg_createdAt = ''2025-01-03T00:00:00.000Z''\<rparr> \<and>
   map msg_content (messages (snd (sendMessage (app_of ''u1'') ''r1'' [] Text
     ''2025-01-03T00:00:00.000Z'' group_backend))) = [[]]"
  by (simp add: example_defs sendMessage_eval)

text \<open>
  C3, as the code has it. \<open>sendMessage\<close> does not look at the content: for a logged-in
  user and empty content the message record, with empty content, is appended to the store,
  and the call succeeds or fails exactly as for any other content (it fails only when the
  store rejects the update of an unknown room id or the notifier rejects a request).
\<close>

theorem sendMessage_empty_content_stored:
  assumes "user app = Some u"
  shows "case sendMessage app rid [] ty now b of (res, b') \<Rightarrow>
           messages b' = messages b @ [new_message u rid [] ty now b] \<and>
           msg_content (new_message u rid [] ty now b) = [] \<and>
           res = (case data_findOne (\<lambda>r. room_id r = rid) (chat_rooms b) of
                    None \<Rightarrow> if strict_ids b then Inl ApiError
                            else Inr (new_message u rid [] ty now b)
                  | Some room \<Rightarrow>
                      if list_all (notify_ok b)
                           (fanout_calls u rid (new_message u rid [] ty now b) room)
                      then Inr (new_message u rid [] ty now b) else Inl ApiError)"
proof (cases "data_findOne (\<lambda>r. room_id r = rid) (chat_rooms b)")
  case None
  then show ?thesis
    by (simp add: sendMessage_missing [OF assms None] new_message_def)
next
  case (Some room)
  then show ?thesis
    by (simp add: sendMessage_found [OF assms Some] new_message_def)
qed

theorem sendMessage_empty_content_stored_witness:
  "user (app_of ''u1'') = Some (mk_user ''u1'') \<and>
   (case sendMessage (app_of ''u1'') ''r1'' [] Text ''2025-01-03T00:00:00.000Z'' group_backend
    of (res, b') \<Rightarrow>
      map msg_content (messages b') = [[]] \<and>
      res = Inr (new_message (mk_user ''u1'') ''r1'' [] Text ''2025-01-03T00:00:00.000Z''
                  group_backend))"
  using sendMessage_empty_content_stored [where app = "app_of ''u1''" and u = "mk_user ''u1''"
      and rid = "''r1''" and b = group_backend and ty = Text
      and now = "''2025-01-03T00:00:00.000Z''"]
  by (simp add: example_defs sendMessage_eval)

text \<open>
  A message whose \<open>createdAt\<close> is older than the room's \<open>lastMessageAt\<close> moves
  \<open>lastMessageAt\<close> backwards.
\<close>

theorem lastMessageAt_monotonic_counterexample:
  "map room_lastMessageAt (chat_rooms group_backend) = [''2025-01-02T00:00:00.000Z''] \<and>
   map room_lastMessageAt (chat_rooms (snd (sendMessage (app_of ''u1'') ''r1'' (utf16 ''late'') Text
       ''2025-01-01T12:00:00.000Z'' group_backend))) = [''2025-01-01T12:00:00.000Z''] \<and>
   ''2025-01-01T12:00:00.000Z'' < ''2025-01-02T00:00:00.000Z''"
  by (simp add: example_defs sendMessage_eval)

text \<open>
  C4, as the code has it. On every message append to an existing room, \<open>sendMessage\<close>
  overwrites the room's \<open>lastMessageAt\<close> with the new message's \<open>createdAt\<close>, whatever
  the current value is; the other rooms are untouched.
\<close>

theorem sendMessage_overwrites_lastMessageAt:
  assumes "user app = Some u"
    and "data_findOne (\<lambda>r. room_id r = rid) (chat_rooms b) = Some room"
  shows "chat_rooms (snd (sendMessage app rid content ty now b)) =
           map (\<lambda>r. if room_id r = rid then r\<lparr>room_lastMessageAt := now\<rparr> else r)
             (chat_rooms b) \<and>
         data_findOne (\<lambda>r. room_id r = rid)
             (chat_rooms (snd (sendMessage app rid content ty now b))) =
           Some (room\<lparr>room_lastMessageAt := now\<rparr>)"
  using data_findOne_map_patch [of "\<lambda>r. r\<lparr>room_lastMessageAt := now\<rparr>" rid "chat_rooms b"]
    assms(2)
  by (simp add: sendMessage_found [OF assms])

theorem sendMessage_overwrites_lastMessageAt_witness:
  "user (app_of ''u1'') = Some (mk_user ''u1'') \<and>
   data_findOne (\<lambda>r. room_id r = ''r1'') (chat_rooms group_backend) = Some room_r1 \<and>
   room_lastMessageAt room_r1 = ''2025-01-02T00:00:00.000Z'' \<and>
   data_findOne (\<lambda>r. room_id r = ''r1'')
     (chat_rooms (snd (sendMessage (app_of ''u1'') ''r1'' (utf16 ''late'') Text
        ''2025-01-01T12:00:00.000Z'' group_backend))) =
     Some (room_r1\<lparr>room_lastMessageAt := ''2025-01-01T12:00:00.000Z''\<rparr>)"
  using sendMessage_overwrites_lastMessageAt [where app = "app_of ''u1''"
      and u = "mk_user ''u1''" and rid = "''r1''" and b = group_backend and room = room_r1
      and content = "utf16 ''late''" and ty = Text and now = "''2025-01-01T12:00:00.000Z''"]
  by (simp add: example_defs sendMessage_eval)

text \<open>
  On a store that accepts an update of an unknown id, \<open>sendMessage\<close> for a room id that
  no room has succeeds and returns the created message.
\<close>

theorem sendMessage_missing_room_counterexample:
  "''r9'' \<notin> set (map room_id (chat_rooms group_backend)) \<and>
   fst (sendMessage (app_of ''u1'') ''r9'' (utf16 ''hello'') Text ''2025-01-03T00:00:00.000Z''
          group_backend)
     = Inr \<lparr>msg_id = ''r'', msg_roomId = ''r9'', msg_userId = ''u1'', msg_content = utf16 ''hello'',
            msg_type = Text, msg_readBy = [''u1''],
            msg_createdAt = ''2025-01-03T00:00:00.000Z''\<rparr>"
  by (simp add: example_defs sendMessage_eval)

text \<open>
  C5, as the code has it. For a room id absent from \<open>chat_rooms\<close>, \<open>sendMessage\<close> by a
  logged-in user never fails with the room-not-found error: the message is stored first;
  then, when the store rejects the update of the unknown id, the call fails with the
  store's error, and otherwise the member lookup finds no room, nobody is notified and the
  created message is returned.
\<close>

theorem sendMessage_missing_room:
  assumes "user app = Some u"
    and "rid \<notin> set (map room_id (chat_rooms b))"
  shows "case sendMessage app rid content ty now b of (res, b') \<Rightarrow>
           res = (if strict_ids b then Inl ApiError
                  else Inr (new_message u rid content ty now b)) \<and>
           res \<noteq> Inl RoomNotFound \<and>
           messages b' = messages b @ [new_message u rid content ty now b] \<and>
           chat_rooms b' = chat_rooms b \<and> outbox b' = outbox b"
proof -
  from assms(2) have "data_findOne (\<lambda>r. room_id r = rid) (chat_rooms b) = None"
    by (auto simp: data_findOne_None)
  then show ?thesis
    by (simp add: sendMessage_missing [OF assms(1)])
qed

theorem sendMessage_missing_room_witness:
  "user (app_of ''u1'') = Some (mk_user ''u1'') \<and>
   ''r9'' \<notin> set (map room_id (chat_rooms (group_backend\<lparr>strict_ids := True\<rparr>))) \<and>
   (case sendMessage (app_of ''u1'') ''r9'' (utf16 ''hello'') Text ''2025-01-03T00:00:00.000Z''
           (group_backend\<lparr>strict_ids := True\<rparr>) of (res, b') \<Rightarrow>
      res = Inl ApiError \<and> map msg_content (messages b') = [utf16 ''hello''] \<and> outbox b' = [])"
  using sendMessage_missing_room [where app = "app_of ''u1''" and u = "mk_user ''u1''"
      and rid = "''r9''" and b = "group_backend\<lparr>strict_ids := True\<rparr>"
      and content = "utf16 ''hello''" and ty = Text and now = "''2025-01-03T00:00:00.000Z''"]
  by (simp add: example_defs sendMessage_eval)

text \<open>
  The claim that every other member gets exactly one call fails in two ways. In the group
  of \<open>u1\<close>, \<open>u2\<close>, \<open>u3\<close> with a notifier that rejects the request for \<open>u2\<close>, a message
  by \<open>u1\<close> leads to one call, for \<open>u2\<close>, and none for the other member \<open>u3\<close>. In the
  direct room \<open>u1\<close> has created with its own id, a message by \<open>u2\<close> leads to two calls
  for the one member \<open>u1\<close>.
\<close>

theorem fanout_recipients_counterexample:
  "filter (\<lambda>i. i \<noteq> ''u1'') (room_members room_r1) = [''u2'', ''u3''] \<and>
   map n_userId (outbox (snd (sendMessage (app_of ''u1'') ''r1'' (utf16 ''ping'') Text
     ''2025-01-03T00:00:00.000Z'' flaky_backend))) = [''u2''] \<and>
   map room_members (chat_rooms self_room_backend) = [[''u1'', ''u1'']] \<and>
   map n_userId (outbox (snd (sendMessage (app_of ''u2'') ''r'' (utf16 ''ping'') Text
     ''2025-01-03T00:00:00.000Z'' self_room_backend))) = [''u1'', ''u1'']"
  by (simp add: example_defs sendMessage_eval createDirectRoom_def store_create_room_def)

text \<open>
  C9, as the code has it. For a call by a logged-in user \<open>u\<close> on an existing room, the
  fan-out has one notifier call for each entry of \<open>room.members\<close> other than \<open>u\<close>, in
  member order and none for \<open>u\<close>: a push notification whose text is the fixed label
  followed by the first 50 code units of the content, with the room id, the message id
  and the sender id as metadata. The calls really sent are those accepted by the notifier
  up to the first rejected one, which is sent too and ends the loop. When every call is
  accepted, \<open>sendMessage\<close> returns the created message and all of them are sent; when
  moreover the members are distinct, that is exactly one call per member other than
  \<open>u\<close>.
\<close>

theorem sendMessage_fanout_recipients:
  assumes "user app = Some u"
    and "data_findOne (\<lambda>r. room_id r = rid) (chat_rooms b) = Some room"
  shows "case sendMessage app rid content ty now b of (res, b') \<Rightarrow>
           (\<exists>calls new.
              map n_userId calls = filter (\<lambda>i. i \<noteq> user_id u) (room_members room) \<and>
              (\<forall>n \<in> set calls.
                 n_userId n \<noteq> user_id u \<and> n_type n = Push \<and>
                 n_message n = notify_label @ take 50 content \<and>
                 n_metadata n = \<lparr>md_roomId = rid,
                                 md_messageId = msg_id (new_message u rid content ty now b),
                                 md_senderId = user_id u\<rparr>) \<and>
              new = takeWhile (notify_ok b) calls @ take 1 (dropWhile (notify_ok b) calls) \<and>
              outbox b' = outbox b @ new \<and>
              (list_all (notify_ok b) calls \<longrightarrow>
                 res = Inr (new_message u rid content ty now b) \<and> new = calls \<and>
                 (distinct (room_members room) \<longrightarrow>
                    distinct (map n_userId new) \<and>
                    set (map n_userId new) = set (room_members room) - {user_id u})))"
proof -
  let ?m = "new_message u rid content ty now b"
  let ?calls = "fanout_calls u rid ?m room"
  let ?new = "fanout_issued (notify_ok b) ?calls"
  let ?run = "sendMessage app rid content ty now b"
  have ids: "map n_userId ?calls = filter (\<lambda>i. i \<noteq> user_id u) (room_members room)"
    by (simp add: fanout_calls_def notification_def comp_def)
  have each: "\<forall>n \<in> set ?calls.
      n_userId n \<noteq> user_id u \<and> n_type n = Push \<and>
      n_message n = notify_label @ take 50 content \<and>
      n_metadata n = \<lparr>md_roomId = rid, md_messageId = msg_id ?m, md_senderId = user_id u\<rparr>"
    by (auto simp: fanout_calls_def notification_def new_message_def)
  have sent: "?new = takeWhile (notify_ok b) ?calls @ take 1 (dropWhile (notify_ok b) ?calls)"
    by (rule fanout_issued_takeWhile)
  have box: "outbox (snd ?run) = outbox b @ ?new"
    by (simp add: sendMessage_found [OF assms])
  have res: "fst ?run = Inr ?m" if "list_all (notify_ok b) ?calls"
    using that by (simp add: sendMessage_found [OF assms])
  have full: "?new = ?calls" if "list_all (notify_ok b) ?calls"
    using that by (rule fanout_issued_all)
  have once: "distinct (map n_userId ?new)"
    if "list_all (notify_ok b) ?calls" and "distinct (room_members room)"
    using that ids by (simp add: full)
  have cover: "set (map n_userId ?new) = set (room_members room) - {user_id u}"
    if "list_all (notify_ok b) ?calls"
  proof -
    have "set (map n_userId ?new) = set (filter (\<lambda>i. i \<noteq> user_id u) (room_members room))"
      using that ids by (simp only: full)
    then show ?thesis by auto
  qed
  have "\<exists>calls new.
      map n_userId calls = filter (\<lambda>i. i \<noteq> user_id u) (room_members room) \<and>
      (\<forall>n \<in> set calls.
         n_userId n \<noteq> user_id u \<and> n_type n = Push \<and>
         n_message n = notify_label @ take 50 content \<and>
         n_metadata n = \<lparr>md_roomId = rid, md_messageId = msg_id ?m,
                         md_senderId = user_id u\<rparr>) \<and>
      new = takeWhile (notify_ok b) calls @ take 1 (dropWhile (notify_ok b) calls) \<and>
      outbox (snd ?run) = outbox b @ new \<and>
      (list_all (notify_ok b) calls \<longrightarrow>
         fst ?run = Inr ?m \<and> new = calls \<and>
         (distinct (room_members room) \<longrightarrow>
            distinct (map n_userId new) \<and>
            set (map n_userId new) = set (room_members room) - {user_id u}))"
    using ids each sent box res full once cover
    by (intro exI [of _ ?calls] exI [of _ ?new]) blast
  then show ?thesis
    by (simp only: case_prod_unfold)
qed

theorem sendMessage_fanout_recipients_witness:
  "user (app_of ''u1'') = Some (mk_user ''u1'') \<and>
   data_findOne (\<lambda>r. room_id r = ''r1'') (chat_rooms group_backend) = Some room_r1 \<and>
   data_findOne (\<lambda>r. room_id r = ''r1'') (chat_rooms flaky_backend) = Some room_r1 \<and>
   distinct (room_members room_r1) \<and>
   (case sendMessage (app_of ''u1'') ''r1'' (replicate 60 0x3042) Text
           ''2025-01-03T00:00:00.000Z'' group_backend of (res, b') \<Rightarrow>
      map n_userId (outbox b') = [''u2'', ''u3''] \<and>
      map n_message (outbox b') =
        [notify_label @ replicate 50 0x3042, notify_label @ replicate 50 0x3042] \<and>
      map (md_senderId \<circ> n_metadata) (outbox b') = [''u1'', ''u1'']) \<and>
   (case sendMessage (app_of ''u1'') ''r1'' (replicate 60 0x3042) Text
           ''2025-01-03T00:00:00.000Z'' flaky_backend of (res, b') \<Rightarrow>
      res = Inl ApiError \<and> map n_userId (outbox b') = [''u2''])"
  using sendMessage_fanout_recipients [where app = "app_of ''u1''"
      and u = "mk_user ''u1''" and rid = "''r1''" and b = group_backend and room = room_r1
      and content = "replicate 60 0x3042" and ty = Text
      and now = "''2025-01-03T00:00:00.000Z''"]
    sendMessage_fanout_recipients [where app = "app_of ''u1''"
      and u = "mk_user ''u1''" and rid = "''r1''" and b = flaky_backend and room = room_r1
      and content = "replicate 60 0x3042" and ty = Text
      and now = "''2025-01-03T00:00:00.000Z''"]
  by (simp add: example_defs sendMessage_eval)

section \<open>Leaving a room\<close>

lemma findOne_filter_other:
  "rid \<noteq> rid' \<Longrightarrow>
   data_findOne (\<lambda>r. room_id r = rid) (filter (\<lambda>r. room_id r \<noteq> rid') rs)
     = data_findOne (\<lambda>r. room_id r = rid) rs"
  by (induction rs) (auto simp: data_findOne_filter)

lemma findOne_filter_same:
  "data_findOne (\<lambda>r. room_id r = rid) (filter (\<lambda>r. room_id r \<noteq> rid) rs) = None"
  by (simp add: data_findOne_None)

lemma findOne_map_other:
  assumes "rid \<noteq> rid'" and "\<And>r. room_id (patch r) = room_id r"
  shows "data_findOne (\<lambda>r. room_id r = rid)
           (map (\<lambda>r. if room_id r = rid' then patch r else r) rs)
         = data_findOne (\<lambda>r. room_id r = rid) rs"
  using assms by (induction rs) (auto simp: data_findOne_filter)

lemma leaveRoom_noauth: "user app = None \<Longrightarrow> leaveRoom app rid b = (Inl NotAuthenticated, b)"
  by (simp add: leaveRoom_def)

lemma leaveRoom_missing:
  "user app = Some u \<Longrightarrow> data_findOne (\<lambda>r. room_id r = rid) (chat_rooms b) = None
     \<Longrightarrow> leaveRoom app rid b = (Inl RoomNotFound, b)"
  by (simp add: leaveRoom_def)

lemma leaveRoom_found:
  assumes "user app = Some u"
    and "data_findOne (\<lambda>r. room_id r = rid) (chat_rooms b) = Some room"
  shows "leaveRoom app rid b =
     (Inr (),
      if filter (\<lambda>i. i \<noteq> user_id u) (room_members room) = []
      then b\<lparr>journal := journal b @ [Delete ''chat_rooms'' rid],
             chat_rooms := filter (\<lambda>r. room_id r \<noteq> rid) (chat_rooms b)\<rparr>
      else b\<lparr>journal := journal b @ [Patch ''chat_rooms'' rid],
             chat_rooms := map (\<lambda>r. if room_id r = rid
                  then r\<lparr>room_members := filter (\<lambda>i. i \<noteq> user_id u) (room_members room)\<rparr>
                  else r) (chat_rooms b)\<rparr>)"
proof -
  from assms(2) have mem: "rid \<in> room_id ` set (chat_rooms b)"
    by (auto dest: data_findOne_Some)
  show ?thesis using assms mem
    by (simp add: leaveRoom_def store_delete_room_def store_update_room_def Let_def)
qed

lemma leave_step_lookup:
  "data_findOne (\<lambda>r. room_id r = rid) (chat_rooms (snd (leaveRoom app rid' b))) =
     (case user app of
        None \<Rightarrow> data_findOne (\<lambda>r. room_id r = rid) (chat_rooms b)
      | Some u \<Rightarrow>
          if rid' \<noteq> rid then data_findOne (\<lambda>r. room_id r = rid) (chat_rooms b)
          else (case data_findOne (\<lambda>r. room_id r = rid) (chat_rooms b) of
                  None \<Rightarrow> None
                | Some room \<Rightarrow>
                    if filter (\<lambda>i. i \<noteq> user_id u) (room_members room) = [] then None
                    else Some (room\<lparr>room_members :=
                                 filter (\<lambda>i. i \<noteq> user_id u) (room_members room)\<rparr>)))"
proof (cases "user app")
  case None
  then show ?thesis by (simp add: leaveRoom_noauth)
next
  case (Some u)
  show ?thesis
  proof (cases "data_findOne (\<lambda>r. room_id r = rid') (chat_rooms b)")
    case None
    with Some show ?thesis by (auto simp: leaveRoom_missing)
  next
    case found: (Some room')
    show ?thesis
    proof (cases "rid' = rid")
      case True
      with Some found show ?thesis
        using data_findOne_map_patch [of "\<lambda>r. r\<lparr>room_members :=
            filter (\<lambda>i. i \<noteq> user_id u) (room_members room')\<rparr>" rid "chat_rooms b"]
        by (simp add: leaveRoom_found findOne_filter_same)
    next
      case False
      with Some found show ?thesis
        by (simp add: leaveRoom_found findOne_filter_other findOne_map_other)
    qed
  qed
qed

lemma leave_all_absent:
  "data_findOne (\<lambda>r. room_id r = rid) (chat_rooms b) = None \<Longrightarrow>
   data_findOne (\<lambda>r. room_id r = rid) (chat_rooms (leave_all calls b)) = None"
  by (induction calls arbitrary: b) (auto simp: leave_step_lookup split: option.splits)

lemma leave_all_present:
  "data_findOne (\<lambda>r. room_id r = rid) (chat_rooms b) = Some room \<Longrightarrow>
   room_members room \<noteq> [] \<Longrightarrow>
   data_findOne (\<lambda>r. room_id r = rid) (chat_rooms (leave_all calls b)) =
     (if filter (\<lambda>i. i \<notin> set (leavers rid calls)) (room_members room) = [] then None
      else Some (room\<lparr>room_members :=
                   filter (\<lambda>i. i \<notin> set (leavers rid calls)) (room_members room)\<rparr>))"
proof (induction calls arbitrary: b room)
  case Nil
  then show ?case by simp
next
  case (Cons c calls)
  obtain app rid' where c: "c = (app, rid')" by (cases c)
  let ?b1 = "snd (leaveRoom app rid' b)"
  show ?case
  proof (cases "user app")
    case None
    then have "data_findOne (\<lambda>r. room_id r = rid) (chat_rooms ?b1) = Some room"
      using Cons.prems(1) by (simp add: leave_step_lookup)
    from Cons.IH [OF this Cons.prems(2)] None c show ?thesis by simp
  next
    case (Some u)
    show ?thesis
    proof (cases "rid' = rid")
      case False
      then have "data_findOne (\<lambda>r. room_id r = rid) (chat_rooms ?b1) = Some room"
        using Cons.prems(1) Some by (simp add: leave_step_lookup)
      from Cons.IH [OF this Cons.prems(2)] Some False c show ?thesis by simp
    next
      case True
      let ?ms = "filter (\<lambda>i. i \<noteq> user_id u) (room_members room)"
      show ?thesis
      proof (cases "?ms = []")
        case gone: True
        then have "data_findOne (\<lambda>r. room_id r = rid) (chat_rooms ?b1) = None"
          using Cons.prems(1) Some True by (simp add: leave_step_lookup)
        then have "data_findOne (\<lambda>r. room_id r = rid) (chat_rooms (leave_all calls ?b1)) = None"
          by (rule leave_all_absent)
        moreover have "filter (\<lambda>i. i \<notin> set (leavers rid (c # calls))) (room_members room) = []"
          using gone Some True c by (auto simp: filter_empty_conv)
        ultimately show ?thesis using c by simp
      next
        case stays: False
        then have "data_findOne (\<lambda>r. room_id r = rid) (chat_rooms ?b1)
            = Some (room\<lparr>room_members := ?ms\<rparr>)"
          using Cons.prems(1) Some True by (simp add: leave_step_lookup)
        from Cons.IH [OF this] stays
        have "data_findOne (\<lambda>r. room_id r = rid) (chat_rooms (leave_all calls ?b1)) =
          (if filter (\<lambda>i. i \<notin> set (leavers rid calls)) ?ms = [] then None
           else Some (room\<lparr>room_members := filter (\<lambda>i. i \<notin> set (leavers rid calls)) ?ms\<rparr>))"
          by simp
        moreover have "filter (\<lambda>i. i \<notin> set (leavers rid calls)) ?ms
            = filter (\<lambda>i. i \<notin> set (leavers rid (c # calls))) (room_members room)"
          using Some True c by (auto intro: filter_cong)
        ultimately show ?thesis using c by simp
      qed
    qed
  qed
qed


text \<open>
  C6. Room existence tracks membership. For a logged-in user, \<open>leaveRoom\<close> fails with the
  room-not-found error and changes nothing when the room is absent; otherwise it succeeds,
  and it deletes the room when the members without the caller are none, and persists the
  members without the caller when some remain. After any sequence of \<open>leaveRoom\<close> calls, a
  room that was absent is absent, and a room that was there with some members is there
  exactly when some of its members have not left, with those as its members.
\<close>

theorem leaveRoom_tracks_membership:
  "(user app = Some u \<longrightarrow>
      (case data_findOne (\<lambda>r. room_id r = rid) (chat_rooms b) of
         None \<Rightarrow> leaveRoom app rid b = (Inl RoomNotFound, b)
       | Some room \<Rightarrow>
           fst (leaveRoom app rid b) = Inr () \<and>
           chat_rooms (snd (leaveRoom app rid b)) =
             (if filter (\<lambda>i. i \<noteq> user_id u) (room_members room) = []
              then filter (\<lambda>r. room_id r \<noteq> rid) (chat_rooms b)
              else map (\<lambda>r. if room_id r = rid
                     then r\<lparr>room_members :=
                            filter (\<lambda>i. i \<noteq> user_id u) (room_members room)\<rparr>
                     else r) (chat_rooms b)))) \<and>
   (data_findOne (\<lambda>r. room_id r = rid) (chat_rooms b) = None \<longrightarrow>
      data_findOne (\<lambda>r. room_id r = rid) (chat_rooms (leave_all calls b)) = None) \<and>
   (data_findOne (\<lambda>r. room_id r = rid) (chat_rooms b) = Some room0 \<longrightarrow>
    room_members room0 \<noteq> [] \<longrightarrow>
      data_findOne (\<lambda>r. room_id r = rid) (chat_rooms (leave_all calls b)) =
        (if filter (\<lambda>i. i \<notin> set (leavers rid calls)) (room_members room0) = [] then None
         else Some (room0\<lparr>room_members :=
                      filter (\<lambda>i. i \<notin> set (leavers rid calls)) (room_members room0)\<rparr>)))"
proof (intro conjI impI)
  assume u: "user app = Some u"
  show "case data_findOne (\<lambda>r. room_id r = rid) (chat_rooms b) of
         None \<Rightarrow> leaveRoom app rid b = (Inl RoomNotFound, b)
       | Some room \<Rightarrow>
           fst (leaveRoom app rid b) = Inr () \<and>
           chat_rooms (snd (leaveRoom app rid b)) =
             (if filter (\<lambda>i. i \<noteq> user_id u) (room_members room) = []
              then filter (\<lambda>r. room_id r \<noteq> rid) (chat_rooms b)
              else map (\<lambda>r. if room_id r = rid
                     then r\<lparr>room_members :=
                            filter (\<lambda>i. i \<noteq> user_id u) (room_members room)\<rparr>
                     else r) (chat_rooms b))"
    by (cases "data_findOne (\<lambda>r. room_id r = rid) (chat_rooms b)")
      (simp_all add: leaveRoom_missing [OF u] leaveRoom_found [OF u])
next
  assume "data_findOne (\<lambda>r. room_id r = rid) (chat_rooms b) = None"
  then show "data_findOne (\<lambda>r. room_id r = rid) (chat_rooms (leave_all calls b)) = None"
    by (rule leave_all_absent)
next
  assume "data_findOne (\<lambda>r. room_id r = rid) (chat_rooms b) = Some room0"
    and "room_members room0 \<noteq> []"
  then show "data_findOne (\<lambda>r. room_id r = rid) (chat_rooms (leave_all calls b)) =
        (if filter (\<lambda>i. i \<notin> set (leavers rid calls)) (room_members room0) = [] then None
         else Some (room0\<lparr>room_members :=
                      filter (\<lambda>i. i \<notin> set (leavers rid calls)) (room_members room0)\<rparr>))"
    by (rule leave_all_present)
qed

theorem leaveRoom_tracks_membership_witness:
  "user (app_of ''u2'') = Some (mk_user ''u2'') \<and>
   data_findOne (\<lambda>r. room_id r = ''r1'') (chat_rooms group_backend) = Some room_r1 \<and>
   room_members room_r1 \<noteq> [] \<and>
   map room_members (chat_rooms (snd (leaveRoom (app_of ''u2'') ''r1'' group_backend)))
     = [[''u1'', ''u3'']] \<and>
   data_findOne (\<lambda>r. room_id r = ''r1'')
     (chat_rooms (leave_all [(app_of ''u2'', ''r1''), (app_of ''u1'', ''r1'')] group_backend))
     = Some (room_r1\<lparr>room_members := [''u3'']\<rparr>) \<and>
   data_findOne (\<lambda>r. room_id r = ''r1'')
     (chat_rooms (leave_all [(app_of ''u2'', ''r1''), (app_of ''u1'', ''r1''),
        (app_of ''u3'', ''r1'')] group_backend)) = None \<and>
   leaveRoom (app_of ''u2'') ''r9'' group_backend = (Inl RoomNotFound, group_backend)"
  using leaveRoom_tracks_membership [where app = "app_of ''u2''" and u = "mk_user ''u2''"
      and rid = "''r1''" and b = group_backend and ?room0.0 = room_r1
      and calls = "[(app_of ''u2'', ''r1''), (app_of ''u1'', ''r1''), (app_of ''u3'', ''r1'')]"]
    leaveRoom_tracks_membership [where app = "app_of ''u2''" and u = "mk_user ''u2''"
      and rid = "''r9''" and b = group_backend and ?room0.0 = room_r1 and calls = "[]"]
  by (simp add: example_defs leaveRoom_eval)


section \<open>Read receipts\<close>

lemma markAsRead_each_one:
  "markAsRead_each u [i] b =
     (Inr (),
      case data_findOne (\<lambda>m. msg_id m = i) (messages b) of
        None \<Rightarrow> b
      | Some m \<Rightarrow>
          if user_id u \<in> set (msg_readBy m) then b
          else b\<lparr>journal := journal b @ [Patch ''messages'' i],
                 messages := map (\<lambda>x. if msg_id x = i
                                       then x\<lparr>msg_readBy := msg_readBy m @ [user_id u]\<rparr>
                                       else x) (messages b)\<rparr>)"
proof (cases "data_findOne (\<lambda>m. msg_id m = i) (messages b)")
  case None
  then show ?thesis by simp
next
  case (Some m)
  then have "i \<in> msg_id ` set (messages b)"
    by (auto dest: data_findOne_Some)
  with Some show ?thesis
    by (simp add: store_update_message_def Let_def)
qed

lemma markAsRead_each_Cons:
  "markAsRead_each u (i # ids) b = markAsRead_each u ids (snd (markAsRead_each u [i] b))"
proof (cases "data_findOne (\<lambda>m. msg_id m = i) (messages b)")
  case None
  then show ?thesis by simp
next
  case (Some m)
  then have "i \<in> msg_id ` set (messages b)"
    by (auto dest: data_findOne_Some)
  with Some show ?thesis
    by (simp add: store_update_message_def Let_def)
qed

lemma markAsRead_each_ok: "fst (markAsRead_each u ids b) = Inr ()"
proof (induction ids arbitrary: b)
  case Nil
  then show ?case by simp
next
  case (Cons i ids)
  show ?case
    by (subst markAsRead_each_Cons) (rule Cons.IH)
qed

lemma receipts_grow_refl: "receipts_grow m m"
  by (simp add: receipts_grow_def)

lemma receipts_grow_trans: "receipts_grow a c \<Longrightarrow> receipts_grow c d \<Longrightarrow> receipts_grow a d"
  by (auto simp: receipts_grow_def)

lemma receipts_all_refl: "list_all2 receipts_grow xs xs"
  by (simp add: list_all2_same receipts_grow_refl)

lemma receipts_all_trans:
  "list_all2 receipts_grow xs ys \<Longrightarrow> list_all2 receipts_grow ys zs
     \<Longrightarrow> list_all2 receipts_grow xs zs"
  by (rule list_all2_trans [of receipts_grow receipts_grow receipts_grow])
    (auto intro: receipts_grow_trans)

lemma receipts_all_ids:
  "list_all2 receipts_grow xs ys \<Longrightarrow> map msg_id ys = map msg_id xs"
  by (induction rule: list_all2_induct) (simp_all add: receipts_grow_def)

lemma markAsRead_one_grows:
  assumes "distinct (map msg_id (messages b))"
  shows "list_all2 receipts_grow (messages b) (messages (snd (markAsRead_each u [i] b)))"
proof (cases "data_findOne (\<lambda>m. msg_id m = i) (messages b)")
  case None
  then show ?thesis by (simp add: receipts_all_refl)
next
  case (Some m)
  then have m: "m \<in> set (messages b)" "msg_id m = i"
    by (auto dest: data_findOne_Some)
  have same: "x = m" if "x \<in> set (messages b)" "msg_id x = i" for x
    using assms m that by (auto simp: distinct_map dest: inj_onD)
  have "receipts_grow x (if msg_id x = i then x\<lparr>msg_readBy := msg_readBy m @ [user_id u]\<rparr> else x)"
    if "x \<in> set (messages b)" for x
    using same [OF that] by (auto simp: receipts_grow_def)
  then have "list_all2 receipts_grow (messages b)
      (map (\<lambda>x. if msg_id x = i then x\<lparr>msg_readBy := msg_readBy m @ [user_id u]\<rparr> else x)
         (messages b))"
    by (simp add: list_all2_map2 list_all2_same)
  with Some show ?thesis
    by (simp add: markAsRead_each_one receipts_all_refl del: markAsRead_each.simps)
qed

lemma markAsRead_each_grows:
  "distinct (map msg_id (messages b)) \<Longrightarrow>
   list_all2 receipts_grow (messages b) (messages (snd (markAsRead_each u ids b)))"
proof (induction ids arbitrary: b)
  case Nil
  then show ?case by (simp add: receipts_all_refl)
next
  case (Cons i ids)
  let ?b1 = "snd (markAsRead_each u [i] b)"
  have one: "list_all2 receipts_grow (messages b) (messages ?b1)"
    using Cons.prems by (rule markAsRead_one_grows)
  then have "distinct (map msg_id (messages ?b1))"
    using Cons.prems by (simp add: receipts_all_ids)
  then have "list_all2 receipts_grow (messages ?b1) (messages (snd (markAsRead_each u ids ?b1)))"
    by (rule Cons.IH)
  with one show ?case
    by (subst markAsRead_each_Cons) (rule receipts_all_trans)
qed

lemma markAsRead_grows:
  "distinct (map msg_id (messages b)) \<Longrightarrow>
   list_all2 receipts_grow (messages b) (messages (snd (markAsRead app ids b)))"
  by (cases "user app") (simp_all add: markAsRead_def receipts_all_refl markAsRead_each_grows)

lemma markRead_all_grows:
  "distinct (map msg_id (messages b)) \<Longrightarrow>
   list_all2 receipts_grow (messages b) (messages (markRead_all calls b))"
proof (induction calls arbitrary: b)
  case Nil
  then show ?case by (simp add: receipts_all_refl)
next
  case (Cons c calls)
  obtain app ids where c: "c = (app, ids)" by (cases c)
  let ?b1 = "snd (markAsRead app ids b)"
  have one: "list_all2 receipts_grow (messages b) (messages ?b1)"
    using Cons.prems by (rule markAsRead_grows)
  then have "distinct (map msg_id (messages ?b1))"
    using Cons.prems by (simp add: receipts_all_ids)
  then have "list_all2 receipts_grow (messages ?b1) (messages (markRead_all calls ?b1))"
    by (rule Cons.IH)
  with one show ?case
    unfolding c by (simp add: receipts_all_trans)
qed

lemma findOne_message_patched:
  "data_findOne (\<lambda>m. msg_id m = i) xs = Some m \<Longrightarrow>
   data_findOne (\<lambda>m. msg_id m = i)
     (map (\<lambda>x. if msg_id x = i then x\<lparr>msg_readBy := rb\<rparr> else x) xs)
     = Some (m\<lparr>msg_readBy := rb\<rparr>)"
  by (induction xs) (auto simp: data_findOne_filter split: if_splits)

lemma markAsRead_skip:
  "user app = Some u \<Longrightarrow> data_findOne (\<lambda>m. msg_id m = i) (messages b) = Some m \<Longrightarrow>
   user_id u \<in> set (msg_readBy m) \<Longrightarrow> markAsRead app [i] b = (Inr (), b)"
  by (simp add: markAsRead_def)

lemma markAsRead_twice:
  assumes "user app = Some u"
  shows "markAsRead app [i] (snd (markAsRead app [i] b)) = (Inr (), snd (markAsRead app [i] b))"
proof (cases "data_findOne (\<lambda>m. msg_id m = i) (messages b)")
  case None
  with assms show ?thesis by (simp add: markAsRead_def)
next
  case (Some m)
  show ?thesis
  proof (cases "user_id u \<in> set (msg_readBy m)")
    case True
    with assms Some show ?thesis by (simp add: markAsRead_def)
  next
    case False
    with assms Some show ?thesis
      using findOne_message_patched [OF Some, of "msg_readBy m @ [user_id u]"]
      by (simp add: markAsRead_def markAsRead_each_one del: markAsRead_each.simps)
  qed
qed


text \<open>
  C7. Read receipts are monotonic and \<open>markAsRead\<close> is idempotent. After any sequence
  of \<open>markAsRead\<close> calls every message of the store is the same message with a read-by
  list that contains the one before; a second \<open>markAsRead([id])\<close> by the same user
  leaves the whole backend, the store's journal of writes included, as the first one left
  it; and when the user is already in \<open>readBy\<close> the call sends no write at all.
\<close>

theorem markAsRead_monotonic_idempotent:
  "(distinct (map msg_id (messages b)) \<longrightarrow>
      list_all2 receipts_grow (messages b) (messages (markRead_all calls b))) \<and>
   (user app = Some u \<longrightarrow>
      markAsRead app [i] (snd (markAsRead app [i] b)) = (Inr (), snd (markAsRead app [i] b))) \<and>
   (user app = Some u \<longrightarrow> data_findOne (\<lambda>m. msg_id m = i) (messages b) = Some m \<longrightarrow>
    user_id u \<in> set (msg_readBy m) \<longrightarrow> markAsRead app [i] b = (Inr (), b))"
  by (simp add: markRead_all_grows markAsRead_twice markAsRead_skip)

theorem markAsRead_monotonic_idempotent_witness:
  "distinct (map msg_id (messages chat_backend)) \<and>
   user (app_of ''u2'') = Some (mk_user ''u2'') \<and>
   map msg_readBy (messages (snd (markAsRead (app_of ''u2'') [''m1''] chat_backend)))
     = [[''u1'', ''u2'']] \<and>
   journal (snd (markAsRead (app_of ''u2'') [''m1''] chat_backend)) = [Patch ''messages'' ''m1''] \<and>
   markAsRead (app_of ''u2'') [''m1''] (snd (markAsRead (app_of ''u2'') [''m1''] chat_backend))
     = (Inr (), snd (markAsRead (app_of ''u2'') [''m1''] chat_backend)) \<and>
   data_findOne (\<lambda>m. msg_id m = ''m1'') (messages chat_backend) = Some msg_m1 \<and>
   user (app_of ''u1'') = Some (mk_user ''u1'') \<and>
   user_id (mk_user ''u1'') \<in> set (msg_readBy msg_m1) \<and>
   markAsRead (app_of ''u1'') [''m1''] chat_backend = (Inr (), chat_backend) \<and>
   list_all2 receipts_grow (messages chat_backend)
     (messages (markRead_all [(app_of ''u2'', [''m1'']), (app_of ''u3'', [''m1'', ''m9''])]
        chat_backend))"
  using markAsRead_monotonic_idempotent [where b = chat_backend and app = "app_of ''u2''"
      and u = "mk_user ''u2''" and i = "''m1''" and m = msg_m1
      and calls = "[(app_of ''u2'', [''m1'']), (app_of ''u3'', [''m1'', ''m9''])]"]
    markAsRead_monotonic_idempotent [where b = chat_backend and app = "app_of ''u1''"
      and u = "mk_user ''u1''" and i = "''m1''" and m = msg_m1 and calls = "[]"]
  by (simp add: example_defs markAsRead_eval)


section \<open>Listing the messages of a room\<close>

lemma insert_desc_sorted:
  "sorted_wrt (\<lambda>a c. k c \<le> k a) xs \<Longrightarrow> sorted_wrt (\<lambda>a c. k c \<le> k a) (insert_desc k x xs)"
proof (induction xs)
  case Nil
  then show ?case by simp
next
  case (Cons y ys)
  have in_set: "set (insert_desc k x zs) = insert x (set zs)" for zs
    by (induction zs) auto
  from Cons show ?case
    by (auto simp: in_set)
qed

lemma set_insert_desc: "set (insert_desc k x xs) = insert x (set xs)"
  by (induction xs) auto

lemma length_insert_desc: "length (insert_desc k x xs) = Suc (length xs)"
  by (induction xs) auto

lemma sort_desc_sorted: "sorted_wrt (\<lambda>a c. k c \<le> k a) (sort_desc k xs)"
  by (induction xs) (simp_all add: sort_desc_def insert_desc_sorted)

lemma set_sort_desc: "set (sort_desc k xs) = set xs"
  by (induction xs) (simp_all add: sort_desc_def set_insert_desc)

lemma length_sort_desc: "length (sort_desc k xs) = length xs"
  by (induction xs) (simp_all add: sort_desc_def length_insert_desc)

lemma room_history_sorted: "sorted (map msg_createdAt (room_history rid b))"
  using sort_desc_sorted [of msg_createdAt "filter (\<lambda>m. msg_roomId m = rid) (messages b)"]
  by (simp add: room_history_def sorted_map sorted_wrt_rev)

lemma room_history_set:
  "set (room_history rid b) = {m \<in> set (messages b). msg_roomId m = rid}"
  by (simp add: room_history_def set_sort_desc)

lemma room_history_length:
  "length (room_history rid b) = length (filter (\<lambda>m. msg_roomId m = rid) (messages b))"
  by (simp add: room_history_def length_sort_desc)

lemma getMessages_recent:
  assumes "user app = Some u" and "0 < n"
  shows "getMessages app rid n b =
           (Inr (drop (length (room_history rid b) - n) (room_history rid b)), b)"
  using assms
  by (simp add: getMessages_def data_find_def store_find_def room_history_def rev_take
      length_sort_desc)

lemma getMessages_all:
  assumes "user app = Some u"
  shows "getMessages app rid 0 b = (Inr (room_history rid b), b)"
  using assms by (simp add: getMessages_def data_find_def store_find_def room_history_def)

text \<open>
  For a limit of at least 1, \<open>getMessages\<close> returns at most \<open>limit\<close> messages, ascending
  by \<open>createdAt\<close>, and they are the end of the room's history: all of it when it has
  fewer than \<open>limit\<close> messages.
\<close>

lemma getMessages_chronological_suffix:
  assumes "user app = Some u" and "0 < n"
  shows "\<exists>ms older. getMessages app rid n b = (Inr ms, b) \<and> length ms \<le> n \<and>
           sorted (map msg_createdAt ms) \<and> room_history rid b = older @ ms \<and>
           (length ms < n \<longrightarrow> older = [])"
proof -
  let ?h = "room_history rid b"
  let ?ms = "drop (length ?h - n) ?h"
  have "sorted (map msg_createdAt ?ms)"
    using room_history_sorted [of rid b] by (simp add: sorted_map sorted_wrt_drop)
  moreover have "?h = take (length ?h - n) ?h @ ?ms" by simp
  moreover have "length ?ms \<le> n" by simp
  moreover have "length ?ms < n \<longrightarrow> take (length ?h - n) ?h = []" by auto
  ultimately show ?thesis
    using getMessages_recent [OF assms] by blast
qed

text \<open>
  C8, at the limit \<open>0\<close>. The data client leaves a limit of \<open>0\<close> out of the query, so
  \<open>getMessages(roomId, 0)\<close> on a room with one message returns that message: more than
  the \<open>0\<close> messages the limit allows.
\<close>

theorem getMessages_limit_zero:
  "getMessages (app_of ''u1'') ''r1'' 0 chat_backend = (Inr [msg_m1], chat_backend) \<and>
   \<not> length [msg_m1] \<le> 0"
  by (simp add: example_defs getMessages_def data_find_def store_find_def sort_desc_def)

section \<open>Operations without an active session\<close>

text \<open>
  \<open>login\<close> has no check of \<open>this.user\<close> either: a client with no active session logs
  in with the credentials of an account.
\<close>

theorem auth_check_counterexample:
  "user app_anon = None \<and>
   login app_anon ''u1@example.com'' ''secret'' ''2025-01-03T00:00:00.000Z'' auth_backend =
     (Inr (mk_user ''u1''), app_of ''u1'',
      auth_backend\<lparr>events := [(''user_online'', ''u1'', ''2025-01-03T00:00:00.000Z'')]\<rparr>)"
  by (simp add: example_defs login_def updatePresence_def monitor_track_def)

text \<open>
  C10, as the code has it. \<open>getOnlineUsers\<close> has no authentication check and returns
  for every room id: the members of the room, and the empty list when no room has the id.
  Without an active session the eight data operations fail with the not-authenticated
  error and send nothing, while \<open>login\<close> (with the credentials of an account) and
  \<open>logout\<close>, which have no such check, succeed like \<open>getOnlineUsers\<close>.
\<close>

theorem getOnlineUsers_total:
  "getOnlineUsers app rid b =
     (Inr (case data_findOne (\<lambda>r. room_id r = rid) (chat_rooms b) of
             None \<Rightarrow> [] | Some room \<Rightarrow> room_members room), b) \<and>
   (rid \<notin> set (map room_id (chat_rooms b)) \<longrightarrow> getOnlineUsers app rid b = (Inr [], b)) \<and>
   (user app = None \<longrightarrow>
      createDirectRoom app other t1 t2 b = (Inl NotAuthenticated, b) \<and>
      createGroupRoom app nm memberIds t1 t2 b = (Inl NotAuthenticated, b) \<and>
      getRooms app b = (Inl NotAuthenticated, b) \<and>
      leaveRoom app rid b = (Inl NotAuthenticated, b) \<and>
      sendMessage app rid content ty t1 b = (Inl NotAuthenticated, b) \<and>
      getMessages app rid n b = (Inl NotAuthenticated, b) \<and>
      markAsRead app messageIds b = (Inl NotAuthenticated, b) \<and>
      getUnreadCount app roomId b = (Inl NotAuthenticated, b)) \<and>
   (auth_login email password (accounts b) = Some (tok, usr) \<longrightarrow>
      fst (login app email password t1 b) = Inr usr) \<and>
   fst (logout app b) = Inr ()"
proof -
  have absent: "data_findOne (\<lambda>r. room_id r = rid) (chat_rooms b) = None"
    if "rid \<notin> set (map room_id (chat_rooms b))"
    using that by (auto simp: data_findOne_None)
  have online: "getOnlineUsers app rid b =
     (Inr (case data_findOne (\<lambda>r. room_id r = rid) (chat_rooms b) of
             None \<Rightarrow> [] | Some room \<Rightarrow> room_members room), b)"
    by (simp add: getOnlineUsers_def split: option.splits)
  have guarded: "createDirectRoom app other t1 t2 b = (Inl NotAuthenticated, b) \<and>
      createGroupRoom app nm memberIds t1 t2 b = (Inl NotAuthenticated, b) \<and>
      getRooms app b = (Inl NotAuthenticated, b) \<and>
      leaveRoom app rid b = (Inl NotAuthenticated, b) \<and>
      sendMessage app rid content ty t1 b = (Inl NotAuthenticated, b) \<and>
      getMessages app rid n b = (Inl NotAuthenticated, b) \<and>
      markAsRead app messageIds b = (Inl NotAuthenticated, b) \<and>
      getUnreadCount app roomId b = (Inl NotAuthenticated, b)"
    if "user app = None"
    using that
    by (simp add: createDirectRoom_def createGroupRoom_def getRooms_def leaveRoom_def
        sendMessage_def getMessages_def markAsRead_def getUnreadCount_def)
  have session: "fst (login app email password t1 b) = Inr usr"
    if "auth_login email password (accounts b) = Some (tok, usr)"
    using that by (simp add: login_def Let_def)
  show ?thesis
    using online absent guarded session by (simp add: logout_def)
qed

theorem getOnlineUsers_total_witness:
  "user app_anon = None \<and> ''r9'' \<notin> set (map room_id (chat_rooms auth_backend)) \<and>
   auth_login ''u1@example.com'' ''secret'' (accounts auth_backend)
     = Some (''token-u1'', mk_user ''u1'') \<and>
   getOnlineUsers app_anon ''r9'' auth_backend = (Inr [], auth_backend) \<and>
   getOnlineUsers app_anon ''r1'' auth_backend = (Inr [''u1'', ''u2'', ''u3''], auth_backend) \<and>
   sendMessage app_anon ''r1'' (utf16 ''hello'') Text ''2025-01-03T00:00:00.000Z'' auth_backend
     = (Inl NotAuthenticated, auth_backend) \<and>
   fst (login app_anon ''u1@example.com'' ''secret'' ''2025-01-03T00:00:00.000Z'' auth_backend)
     = Inr (mk_user ''u1'')"
  using getOnlineUsers_total [where app = app_anon and rid = "''r9''" and b = auth_backend
      and content = "utf16 ''hello''" and ty = Text and ?t1.0 = "''2025-01-03T00:00:00.000Z''"
      and email = "''u1@example.com''" and password = "''secret''" and tok = "''token-u1''"
      and usr = "mk_user ''u1''"]
    getOnlineUsers_total [where app = app_anon and rid = "''r1''" and b = auth_backend
      and content = "utf16 ''hello''" and ty = Text and ?t1.0 = "''2025-01-03T00:00:00.000Z''"
      and email = "''u1@example.com''" and password = "''secret''" and tok = "''token-u1''"
      and usr = "mk_user ''u1''"]
  by (simp add: example_defs data_findOne_def data_find_def store_find_def)


end
